theory Spec2Isabelle
  imports Main "HOL-Library.Monad_Syntax"
begin

section \<open>JavaScript strings and regular-expression scanning\<close>

text \<open>
  The converter is a chain of \<^verbatim>\<open>String.prototype.replace\<close> and \<^verbatim>\<open>RegExp.prototype.exec\<close>
  calls. Text is a \<^typ>\<open>string\<close>, one \<^typ>\<open>char\<close> per code unit (code units below 256; every
  pattern of the source is ASCII). The backslash cannot be written inside a string literal, so
  it has a name.
\<close>

abbreviation bs :: char where "bs \<equiv> CHR 0x5C"
abbreviation nl :: char where "nl \<equiv> CHR 0x0A"

text \<open>The class \<^verbatim>\<open>\s\<close> (also what \<^verbatim>\<open>trim()\<close> strips), restricted to code units below 256.\<close>

definition is_space :: "char \<Rightarrow> bool" where
  "is_space c \<longleftrightarrow> c = CHR 0x09 \<or> c = CHR 0x0A \<or> c = CHR 0x0B \<or> c = CHR 0x0C \<or> c = CHR 0x0D
     \<or> c = CHR '' '' \<or> c = CHR 0xA0"

definition is_alpha :: "char \<Rightarrow> bool" where
  "is_alpha c \<longleftrightarrow> (97 \<le> (of_char c :: nat) \<and> (of_char c :: nat) \<le> 122)
     \<or> (65 \<le> (of_char c :: nat) \<and> (of_char c :: nat) \<le> 90)"


definition trim :: "string \<Rightarrow> string" where
  "trim s = rev (dropWhile is_space (rev (dropWhile is_space s)))"

text \<open>A literal piece of a pattern: the input with the literal removed from its front.\<close>

fun lit :: "string \<Rightarrow> string \<Rightarrow> string option" where
  "lit [] s = Some s"
| "lit (x # xs) [] = None"
| "lit (x # xs) (c # cs) = (if x = c then lit xs cs else None)"

text \<open>\<^verbatim>\<open>c?\<close> (greedy) in front of a literal that differs from \<^verbatim>\<open>c\<close>.\<close>

fun opt_chr :: "char \<Rightarrow> string \<Rightarrow> string" where
  "opt_chr c [] = []"
| "opt_chr c (d # r) = (if d = c then r else d # r)"

text \<open>
  \<^verbatim>\<open>([^c]+)c\<close> and \<^verbatim>\<open>([^c]*)c\<close>: the group runs to the first \<^verbatim>\<open>c\<close>; giving characters
  back cannot help, since the character after a shorter group is not \<^verbatim>\<open>c\<close>.
\<close>

definition star_until :: "char \<Rightarrow> string \<Rightarrow> (string \<times> string) option" where
  "star_until c s =
     (case dropWhile (\<lambda>x. x \<noteq> c) s of [] \<Rightarrow> None
      | _ # r \<Rightarrow> Some (takeWhile (\<lambda>x. x \<noteq> c) s, r))"

definition plus_until :: "char \<Rightarrow> string \<Rightarrow> (string \<times> string) option" where
  "plus_until c s =
     (case star_until c s of None \<Rightarrow> None
      | Some (k, r) \<Rightarrow> if k = [] then None else Some (k, r))"

text \<open>
  The lazy \<^verbatim>\<open>[\s\S]*?\<close> in front of the rest \<^verbatim>\<open>k\<close> of a pattern: the rest is tried at the
  current position first and one character further on each failure. The result is the
  skipped text and what the rest returned.
\<close>

fun lazy_any :: "(string \<Rightarrow> 'a option) \<Rightarrow> string \<Rightarrow> (string \<times> 'a) option" where
  "lazy_any k [] = (case k [] of None \<Rightarrow> None | Some r \<Rightarrow> Some ([], r))"
| "lazy_any k (c # cs) =
     (case k (c # cs) of
        Some r \<Rightarrow> Some ([], r)
      | None \<Rightarrow> (case lazy_any k cs of None \<Rightarrow> None | Some (sk, r) \<Rightarrow> Some (c # sk, r)))"

fun contains :: "string \<Rightarrow> string \<Rightarrow> bool" where
  "contains pat [] = (pat = [])"
| "contains pat (c # cs) = (lit pat (c # cs) \<noteq> None \<or> contains pat cs)"

text \<open>
  A pattern is a function from the character before the current position (for lookbehind)
  and the input from the current position on to the capture groups and the input left after
  the match. A global scan cuts the text into the characters outside matches and the
  matches, searching on from the end of each match as \<^verbatim>\<open>lastIndex\<close> does. No pattern of the
  source matches the empty string; a result that consumes nothing counts as no match.
\<close>

type_synonym matcher = "char option \<Rightarrow> string \<Rightarrow> (string list \<times> string) option"

datatype seg = Lit char | Hit string "string list"

function js_scan :: "matcher \<Rightarrow> char option \<Rightarrow> string \<Rightarrow> seg list" where
  "js_scan m p [] = []"
| "js_scan m p (c # cs) =
     (case m p (c # cs) of
        None \<Rightarrow> Lit c # js_scan m (Some c) cs
      | Some (caps, rest) \<Rightarrow>
          if length rest \<le> length cs
          then Hit (take (Suc (length cs) - length rest) (c # cs)) caps
                 # js_scan m (Some (last (take (Suc (length cs) - length rest) (c # cs)))) rest
          else Lit c # js_scan m (Some c) cs)"
  by pat_completeness auto
termination
  by (relation "measure (\<lambda>(m, p, s). length s)") auto

definition group :: "string list \<Rightarrow> nat \<Rightarrow> string" where
  "group caps i = (if i < length caps then caps ! i else [])"

text \<open>\<^verbatim>\<open>text.replace(re, callback)\<close> with a global pattern; the callback gets the match and its groups.\<close>

fun seg_out :: "(string \<Rightarrow> string list \<Rightarrow> string) \<Rightarrow> seg \<Rightarrow> string" where
  "seg_out f (Lit c) = [c]"
| "seg_out f (Hit w caps) = f w caps"

definition js_replace :: "matcher \<Rightarrow> (string \<Rightarrow> string list \<Rightarrow> string) \<Rightarrow> string \<Rightarrow> string" where
  "js_replace m f s = concat (map (seg_out f) (js_scan m None s))"

text \<open>The \<^verbatim>\<open>while ((m = re.exec(text)) !== null)\<close> loop: index, match and groups of every match.\<close>

fun hits_at :: "nat \<Rightarrow> seg list \<Rightarrow> (nat \<times> string \<times> string list) list" where
  "hits_at i [] = []"
| "hits_at i (Lit c # ss) = hits_at (Suc i) ss"
| "hits_at i (Hit w caps # ss) = (i, w, caps) # hits_at (i + length w) ss"

definition js_exec_all :: "matcher \<Rightarrow> string \<Rightarrow> (nat \<times> string \<times> string list) list" where
  "js_exec_all m s = hits_at 0 (js_scan m None s)"

text \<open>\<^verbatim>\<open>s.substring(a, b)\<close> for \<^verbatim>\<open>a \<le> b \<le> s.length\<close>, the only way the source calls it.\<close>

definition substring :: "string \<Rightarrow> nat \<Rightarrow> nat \<Rightarrow> string" where
  "substring s a b = take (b - a) (drop a s)"


section \<open>Structural segmenter: \<^verbatim>\<open>extractSections\<close> (arxiv-pipeline.js)\<close>

record tex_section =
  sec_title :: string
  sec_content :: string
  sec_number :: nat

record sectionStart =
  ss_title :: string
  ss_index :: nat
  ss_fullMatch :: string

text \<open>\<^verbatim>\<open>/\\section\*?\{([^}]+)\}/g\<close>\<close>

definition sectionPattern :: matcher where
  "sectionPattern p s =
     do { r1 \<leftarrow> lit (bs # ''section'') s;
          r2 \<leftarrow> lit ''{'' (opt_chr (CHR ''*'') r1);
          (t, r3) \<leftarrow> plus_until (CHR ''}'') r2;
          Some ([t], r3) }"

definition sectionStarts :: "string \<Rightarrow> sectionStart list" where
  "sectionStarts body =
     map (\<lambda>(i, w, caps). \<lparr>ss_title = group caps 0, ss_index = i, ss_fullMatch = w\<rparr>)
       (js_exec_all sectionPattern body)"

definition extractSections :: "string \<Rightarrow> tex_section list" where
  "extractSections body =
     (let starts = sectionStarts body in
      map (\<lambda>i.
        let start = ss_index (starts ! i) + length (ss_fullMatch (starts ! i));
            end = (if i + 1 < length starts then ss_index (starts ! (i + 1)) else length body)
        in \<lparr>sec_title = ss_title (starts ! i),
            sec_content = trim (substring body start end),
            sec_number = i + 1\<rparr>)
        [0 ..< length starts])"



section \<open>Label resolver: \<^verbatim>\<open>collectLabels\<close> and \<^verbatim>\<open>resolveRefs\<close> (tools/resolve-refs.js)\<close>

text \<open>
  A label is \<^verbatim>\<open>{ type, number }\<close>; the number is a counter value or the string \<^verbatim>\<open>'?'\<close>.
  The table is a \<^verbatim>\<open>Map\<close> from keys to labels: \<^verbatim>\<open>get\<close> of a missing key is \<^verbatim>\<open>undefined\<close>
  (\<^const>\<open>None\<close>), \<^verbatim>\<open>set\<close> adds or overwrites.
\<close>

datatype label_type = TyEquation | TyFigure | TyTable | TySection | TyUnknown

datatype label_number = Num nat | Question

record label =
  lab_type :: label_type
  lab_number :: label_number

type_synonym label_table = "string \<rightharpoonup> label"

text \<open>
  An alternation of literals none of which is a prefix of another: at most one of them
  matches at a position, so the first one that does is the only choice.
\<close>

fun alt_lit :: "string list \<Rightarrow> string \<Rightarrow> (string \<times> string) option" where
  "alt_lit [] s = None"
| "alt_lit (a # as) s = (case lit a s of Some r \<Rightarrow> Some (a, r) | None \<Rightarrow> alt_lit as s)"

text \<open>\<^verbatim>\<open>\\end\{env\*?\}\<close>\<close>

definition end_env :: "string \<Rightarrow> string \<Rightarrow> string option" where
  "end_env env s = do { r \<leftarrow> lit (bs # ''end{'' @ env) s; lit ''}'' (opt_chr (CHR ''*'') r) }"

text \<open>\<^verbatim>\<open>\\label\{([^}]+)\}\<close>\<close>

definition label_cmd :: "string \<Rightarrow> (string \<times> string) option" where
  "label_cmd s = do { r \<leftarrow> lit (bs # ''label{'') s; plus_until (CHR ''}'') r }"

text \<open>
  \<^verbatim>\<open>[\s\S]*?\\label\{([^}]+)\}[\s\S]*?\\end\{env\*?\}\<close>, the tail shared by the equation,
  figure and table patterns: the first label command after which an end of the environment
  still follows, and the first such end.
\<close>

definition label_then_end :: "string \<Rightarrow> string \<Rightarrow> (string \<times> string) option" where
  "label_then_end env s =
     do { (sk, key, r) \<leftarrow>
            lazy_any (\<lambda>t. do { (key, t1) \<leftarrow> label_cmd t;
                                (sk2, t2) \<leftarrow> lazy_any (end_env env) t1;
                                Some (key, t2) }) s;
          Some (key, r) }"

text \<open>\<^verbatim>\<open>/\\begin\{(equation|align|gather)\*?\}[\s\S]*?\\label\{([^}]+)\}[\s\S]*?\\end\{\1\*?\}/g\<close>\<close>

definition eqPattern :: matcher where
  "eqPattern p s =
     do { r0 \<leftarrow> lit (bs # ''begin{'') s;
          (env, r1) \<leftarrow> alt_lit [''equation'', ''align'', ''gather''] r0;
          r2 \<leftarrow> lit ''}'' (opt_chr (CHR ''*'') r1);
          (key, r) \<leftarrow> label_then_end env r2;
          Some ([env, key], r) }"

text \<open>
  \<^verbatim>\<open>/\\begin\{figure\*?\}[\s\S]*?\\label\{([^}]+)\}[\s\S]*?\\end\{figure\*?\}/g\<close> and the
  same with \<^verbatim>\<open>table\<close>.
\<close>

definition env_label_pattern :: "string \<Rightarrow> matcher" where
  "env_label_pattern env p s =
     do { r0 \<leftarrow> lit (bs # ''begin{'' @ env) s;
          r2 \<leftarrow> lit ''}'' (opt_chr (CHR ''*'') r0);
          (key, r) \<leftarrow> label_then_end env r2;
          Some ([key], r) }"

definition figPattern :: matcher where
  "figPattern = env_label_pattern ''figure''"

definition tabPattern :: matcher where
  "tabPattern = env_label_pattern ''table''"

text \<open>\<^verbatim>\<open>(?:sub)*\<close> in front of \<^verbatim>\<open>section\<close>: every leading \<^verbatim>\<open>sub\<close> is taken.\<close>

fun strip_subs :: "string \<Rightarrow> string" where
  "strip_subs (a # b # c # r) =
     (if a = CHR ''s'' \<and> b = CHR ''u'' \<and> c = CHR ''b'' then strip_subs r else a # b # c # r)"
| "strip_subs s = s"

text \<open>\<^verbatim>\<open>/\\(?:sub)*section\*?\{[^}]+\}\s*\\label\{([^}]+)\}/g\<close>\<close>

definition secPattern :: matcher where
  "secPattern p s =
     do { r0 \<leftarrow> lit [bs] s;
          r1 \<leftarrow> lit ''section'' (strip_subs r0);
          r2 \<leftarrow> lit ''{'' (opt_chr (CHR ''*'') r1);
          (t, r3) \<leftarrow> plus_until (CHR ''}'') r2;
          (key, r) \<leftarrow> label_cmd (dropWhile is_space r3);
          Some ([key], r) }"

text \<open>\<^verbatim>\<open>/\\label\{([^}]+)\}/g\<close>\<close>

definition standalonePattern :: matcher where
  "standalonePattern p s = do { (key, r) \<leftarrow> label_cmd s; Some ([key], r) }"

text \<open>The keys in the order in which the \<^verbatim>\<open>exec\<close> loop of a pattern meets them.\<close>

definition keys_of :: "matcher \<Rightarrow> nat \<Rightarrow> string \<Rightarrow> string list" where
  "keys_of m g text = map (\<lambda>(i, w, caps). group caps g) (js_exec_all m text)"

text \<open>\<^verbatim>\<open>labels.set(key, { type, number: ++n })\<close> for each match of a typed pattern.\<close>

fun set_numbered :: "label_type \<Rightarrow> string list \<Rightarrow> nat \<Rightarrow> label_table \<Rightarrow> label_table" where
  "set_numbered ty [] n L = L"
| "set_numbered ty (k # ks) n L =
     set_numbered ty ks (Suc n) (L(k \<mapsto> \<lparr>lab_type = ty, lab_number = Num (Suc n)\<rparr>))"

text \<open>\<^verbatim>\<open>if (!labels.has(key)) labels.set(key, { type: 'unknown', number: '?' })\<close>\<close>

fun set_standalone :: "string list \<Rightarrow> label_table \<Rightarrow> label_table" where
  "set_standalone [] L = L"
| "set_standalone (k # ks) L =
     set_standalone ks
       (if L k \<noteq> None then L else L(k \<mapsto> \<lparr>lab_type = TyUnknown, lab_number = Question\<rparr>))"

definition eqKeys :: "string \<Rightarrow> string list" where "eqKeys text = keys_of eqPattern 1 text"
definition figKeys :: "string \<Rightarrow> string list" where "figKeys text = keys_of figPattern 0 text"
definition tabKeys :: "string \<Rightarrow> string list" where "tabKeys text = keys_of tabPattern 0 text"
definition secKeys :: "string \<Rightarrow> string list" where "secKeys text = keys_of secPattern 0 text"
definition allKeys :: "string \<Rightarrow> string list" where
  "allKeys text = keys_of standalonePattern 0 text"

definition collectLabels :: "string \<Rightarrow> label_table" where
  "collectLabels text =
     (let L1 = set_numbered TyEquation (eqKeys text) 0 Map.empty;
          L2 = set_numbered TyFigure (figKeys text) 0 L1;
          L3 = set_numbered TyTable (tabKeys text) 0 L2;
          L4 = set_numbered TySection (secKeys text) 0 L3
      in set_standalone (allKeys text) L4)"












text \<open>The position of the last occurrence of a key in a list of keys (0 if there is none).\<close>

fun last_pos :: "'a \<Rightarrow> 'a list \<Rightarrow> nat" where
  "last_pos k [] = 0"
| "last_pos k (x # xs) = (if k \<in> set xs then Suc (last_pos k xs) else 0)"

text \<open>
  An unlabelled equation, a labelled figure and a second equation:
  \<^verbatim>\<open>\begin{equation}x\end{equation}\begin{figure}\label{f}\end{figure}\begin{equation}y\end{equation}\<close>
\<close>

definition doc_eq_fig_eq :: string where
  "doc_eq_fig_eq =
     bs # ''begin{equation}x'' @ bs # ''end{equation}'' @ bs # ''begin{figure}'' @ bs # ''label{f}''
       @ bs # ''end{figure}'' @ bs # ''begin{equation}y'' @ bs # ''end{equation}''"


section \<open>Figure extractor: \<^verbatim>\<open>extractFigures\<close> and \<^verbatim>\<open>replaceFiguresInText\<close> (tools/extract-figures.js)\<close>

text \<open>\<^verbatim>\<open>str.replace(/c/g, r)\<close> for a single character, and \<^verbatim>\<open>escapeHtml\<close>.\<close>

definition replace_chr :: "char \<Rightarrow> string \<Rightarrow> string \<Rightarrow> string" where
  "replace_chr c r s = concat (map (\<lambda>x. if x = c then r else [x]) s)"

definition escapeHtml :: "string \<Rightarrow> string" where
  "escapeHtml str =
     replace_chr (CHR 0x22) ''&quot;''
       (replace_chr (CHR ''>'') ''&gt;'' (replace_chr (CHR ''<'') ''&lt;'' (replace_chr (CHR ''&'') ''&amp;'' str)))"

text \<open>\<^verbatim>\<open>xs.join(sep)\<close>\<close>

fun js_join :: "string \<Rightarrow> string list \<Rightarrow> string" where
  "js_join sep [] = []"
| "js_join sep [x] = x"
| "js_join sep (x # y # ys) = x @ sep @ js_join sep (y # ys)"





record figure =
  fig_id :: nat
  fig_label :: string
  fig_caption :: string
  fig_images :: "string list"
  fig_width :: "string option"









text \<open>\<^verbatim>\<open>/\\cmd\{([^}]*)\}/g\<close> for a command name, and \<^verbatim>\<open>/\\citep?\{[^}]*\}/g\<close>.\<close>

definition cmd_arg0_pattern :: "string \<Rightarrow> matcher" where
  "cmd_arg0_pattern name p s =
     do { r \<leftarrow> lit (bs # name @ ''{'') s;
          (arg, r') \<leftarrow> star_until (CHR ''}'') r;
          Some ([arg], r') }"





















section \<open>Citation badges: the bracket rewrite of \<^verbatim>\<open>importArxiv\<close> (arxiv-pipeline.js)\<close>





















text \<open>The text a segment of a scan stands for.\<close>

fun seg_raw :: "seg \<Rightarrow> string" where
  "seg_raw (Lit c) = [c]"
| "seg_raw (Hit w caps) = w"


section \<open>Macro resolver: \<^verbatim>\<open>applyMacros\<close> (tex2html.js)\<close>

text \<open>
  \<^verbatim>\<open>text.replace(re, template)\<close> with a string as second argument: in the template
  \<^verbatim>\<open>$$\<close> stands for a dollar sign, \<^verbatim>\<open>$&\<close> for the match, \<^verbatim>\<open>$`\<close> for the text before
  the match and \<^verbatim>\<open>$'\<close> for the text after it. The patterns used with a template here have
  no groups, so \<^verbatim>\<open>$1\<close> to \<^verbatim>\<open>$99\<close> and every other dollar sign stand for themselves.
\<close>

fun expand_template :: "string \<Rightarrow> string \<Rightarrow> string \<Rightarrow> string \<Rightarrow> string" where
  "expand_template [] matched bef aft = []"
| "expand_template [c] matched bef aft = [c]"
| "expand_template (c # d # r) matched bef aft =
     (if c = CHR ''$'' \<and> d = CHR ''$'' then CHR ''$'' # expand_template r matched bef aft
      else if c = CHR ''$'' \<and> d = CHR ''&'' then matched @ expand_template r matched bef aft
      else if c = CHR ''$'' \<and> d = CHR 0x60 then bef @ expand_template r matched bef aft
      else if c = CHR ''$'' \<and> d = CHR 0x27 then aft @ expand_template r matched bef aft
      else c # expand_template (d # r) matched bef aft)"

text \<open>The segments of a scan with the text before and after each of them.\<close>

fun template_out :: "string \<Rightarrow> string \<Rightarrow> seg list \<Rightarrow> string" where
  "template_out template bef [] = []"
| "template_out template bef (Lit c # ss) = c # template_out template (bef @ [c]) ss"
| "template_out template bef (Hit w caps # ss) =
     expand_template template w bef (concat (map seg_raw ss))
       @ template_out template (bef @ w) ss"

definition js_replace_template :: "matcher \<Rightarrow> string \<Rightarrow> string \<Rightarrow> string" where
  "js_replace_template m template s = template_out template [] (js_scan m None s)"

record macro =
  m_name :: string
  m_args :: nat
  m_replacement :: string

text \<open>
  \<^verbatim>\<open>new RegExp(`\\\\${name}(?![a-zA-Z])`, 'g')\<close>: the backslash, the name, and no letter next.
  Names come from \<^verbatim>\<open>\w+\<close> in \<^verbatim>\<open>extractMacros\<close>, which a pattern source reads literally.
\<close>

definition zero_arg_pattern :: "string \<Rightarrow> matcher" where
  "zero_arg_pattern name p s =
     (case lit (bs # name) s of
        None \<Rightarrow> None
      | Some r \<Rightarrow> (case r of
                    c # r' \<Rightarrow> if is_alpha c then None else Some ([], r)
                  | [] \<Rightarrow> Some ([], r)))"

text \<open>\<^verbatim>\<open>/#1/g\<close>\<close>

definition hash1_pattern :: matcher where
  "hash1_pattern p s = (case lit ''#1'' s of None \<Rightarrow> None | Some r \<Rightarrow> Some ([], r))"

text \<open>
  The two loops over \<^verbatim>\<open>Object.entries(macros)\<close>; the table is the list of its entries in
  that order.
\<close>

definition zero_arg_step :: "string \<Rightarrow> macro \<Rightarrow> string" where
  "zero_arg_step tex mdef =
     (if m_args mdef = 0
      then js_replace_template (zero_arg_pattern (m_name mdef)) (m_replacement mdef) tex
      else tex)"

definition one_arg_step :: "string \<Rightarrow> macro \<Rightarrow> string" where
  "one_arg_step tex mdef =
     (if m_args mdef = 1
      then js_replace (cmd_arg0_pattern (m_name mdef))
             (\<lambda>w caps. js_replace_template hash1_pattern (group caps 0) (m_replacement mdef)) tex
      else tex)"

definition applyMacros :: "string \<Rightarrow> macro list \<Rightarrow> string" where
  "applyMacros tex macros = foldl one_arg_step (foldl zero_arg_step tex macros) macros"


definition macros_display :: "macro list" where
  "macros_display = [\<lparr>m_name = ''x'', m_args = 0, m_replacement = ''$$a$$''\<rparr>]"



section \<open>Math renderer: \<^verbatim>\<open>renderMath\<close>, \<^verbatim>\<open>annotateVarsInMath\<close>, \<^verbatim>\<open>renderAllMath\<close> (tools/render-math.js)\<close>

text \<open>
  The source holds two copies of render-math.js. Both keep the custom macros in the
  module-level variable \<^verbatim>\<open>_customMacros\<close>, which \<^verbatim>\<open>setCustomMacros\<close> assigns and
  \<^verbatim>\<open>renderMath\<close> reads; the variable is the state here. A macro table is an object from
  names to definitions. \<^verbatim>\<open>katex.renderToString\<close> is the typesetting collaborator: a
  parameter that returns the HTML or the message of the error it throws.
\<close>

type_synonym macro_table = "string \<rightharpoonup> string"

type_synonym typesetter = "string \<Rightarrow> bool \<Rightarrow> macro_table \<Rightarrow> string + string"

record render_state =
  customMacros :: macro_table

definition initial_state :: render_state where
  "initial_state = \<lparr>customMacros = Map.empty\<rparr>"

text \<open>\<^verbatim>\<open>_customMacros = macros || {}\<close>\<close>

definition setCustomMacros :: "macro_table option \<Rightarrow> render_state \<Rightarrow> render_state" where
  "setCustomMacros macros st =
     st\<lparr>customMacros := (case macros of Some m \<Rightarrow> m | None \<Rightarrow> Map.empty)\<rparr>"

definition defaultMacros :: macro_table where
  "defaultMacros =
     map_of
       [(bs # ''R'', bs # ''mathbb{R}''),
        (bs # ''N'', bs # ''mathbb{N}''),
        (bs # ''Z'', bs # ''mathbb{Z}''),
        (bs # ''softmax'', bs # ''text{softmax}''),
        (bs # ''Attention'', bs # ''text{Attention}''),
        (bs # ''MultiHead'', bs # ''text{MultiHead}''),
        (bs # ''FFN'', bs # ''text{FFN}''),
        (bs # ''LayerNorm'', bs # ''text{LayerNorm}''),
        (bs # ''Concat'', bs # ''text{Concat}''),
        (bs # ''head'', bs # ''text{head}'')]"

text \<open>A literal as a pattern, and \<^verbatim>\<open>/<[^>]+>/g\<close>.\<close>

definition lit_pattern :: "string \<Rightarrow> matcher" where
  "lit_pattern pat p s = (case lit pat s of None \<Rightarrow> None | Some r \<Rightarrow> Some ([], r))"

definition tagPattern :: matcher where
  "tagPattern p s =
     do { r \<leftarrow> lit ''<'' s;
          (t, r') \<leftarrow> plus_until (CHR ''>'') r;
          Some ([], r') }"

text \<open>
  \<^verbatim>\<open>str.replace(re, r)\<close> for a replacement string \<^verbatim>\<open>r\<close> without dollar sign, as all the
  replacement strings of \<^verbatim>\<open>renderMath\<close> are.
\<close>

definition replace_const :: "matcher \<Rightarrow> string \<Rightarrow> string \<Rightarrow> string" where
  "replace_const m r s = js_replace m (\<lambda>w caps. r) s"

definition math_error :: "string \<Rightarrow> string \<Rightarrow> string" where
  "math_error message latex =
     ''<span class=\"math-error\" title=\"'' @ message @ ''\">'' @ escapeHtml latex @ ''</span>''"

text \<open>\<^verbatim>\<open>renderMath(latex, displayMode, extraMacros)\<close> of the first copy.\<close>

definition clean_a :: "string \<Rightarrow> string" where
  "clean_a latex =
     replace_const (lit_pattern ''&quot;'') [CHR 0x22]
       (replace_const (lit_pattern ''&amp;'') ''&''
         (replace_const (lit_pattern ''&gt;'') ''>''
           (replace_const (lit_pattern ''&lt;'') ''<''
             (replace_const tagPattern []
               (replace_const (lit_pattern (bs # ''nonumber'')) []
                 (replace_const (cmd_arg0_pattern ''tag'') []
                   (replace_const (cmd_arg0_pattern ''label'') [] (trim latex))))))))"

definition renderMath_a :: "typesetter \<Rightarrow> render_state \<Rightarrow> string \<Rightarrow> bool \<Rightarrow> macro_table \<Rightarrow> string" where
  "renderMath_a katex st latex displayMode extraMacros =
     (case katex (clean_a latex) displayMode (defaultMacros ++ customMacros st ++ extraMacros) of
        Inr html \<Rightarrow> html
      | Inl message \<Rightarrow> math_error message latex)"

text \<open>\<^verbatim>\<open>renderMath(latex, displayMode)\<close> of the second copy.\<close>

definition clean_b :: "string \<Rightarrow> string" where
  "clean_b latex =
     replace_const (lit_pattern ''&gt;'') ''>''
       (replace_const (lit_pattern ''&lt;'') ''<''
         (replace_const (lit_pattern ''&amp;'') ''&''
           (replace_const (lit_pattern (bs # ''nonumber'')) []
             (replace_const (cmd_arg0_pattern ''tag'') []
               (replace_const (cmd_arg0_pattern ''label'') []
                 (replace_const tagPattern [] (trim latex)))))))"

definition renderMath_b :: "typesetter \<Rightarrow> render_state \<Rightarrow> string \<Rightarrow> bool \<Rightarrow> string" where
  "renderMath_b katex st latex displayMode =
     (case katex (clean_b latex) displayMode (defaultMacros ++ customMacros st) of
        Inr html \<Rightarrow> html
      | Inl message \<Rightarrow> math_error message latex)"

text \<open>
  \<^verbatim>\<open>annotateVarsInMath\<close>. The table \<open>descs\<close> is the list of the entries of
  \<^verbatim>\<open>{ ...VAR_DESCRIPTIONS, ...varDescriptions }\<close> in their order; only names of length one
  are wrapped. The pattern is
  \<^verbatim>\<open>(<span class="mord mathnormal"[^>]*>)(v)(</span>)\<close> for the variable \<^verbatim>\<open>v\<close>.
\<close>

definition VAR_COLORS :: "(string \<times> string) list" where
  "VAR_COLORS =
     [(''Q'', ''#f0a050''), (''K'', ''#58a6ff''), (''V'', ''#7ee787''), (''d_k'', ''#79c0ff''),
      (''d_v'', ''#ffa657''), (''d_model'', ''#d2a8ff''), (''h'', ''#ff7b72''), (''W'', ''#a5d6ff''),
      (''b'', ''#ffd700''), (''x'', ''#98c379''), (''n'', ''#c678dd'')]"

definition var_span_pattern :: "string \<Rightarrow> matcher" where
  "var_span_pattern v p s =
     do { r0 \<leftarrow> lit ''<span class=\"mord mathnormal\"'' s;
          (attrs, r1) \<leftarrow> star_until (CHR ''>'') r0;
          r2 \<leftarrow> lit v r1;
          r3 \<leftarrow> lit ''</span>'' r2;
          Some ([''<span class=\"mord mathnormal\"'' @ attrs @ ''>'', v, ''</span>''], r3) }"

definition annotate_step :: "string \<Rightarrow> string \<times> string \<Rightarrow> string" where
  "annotate_step html entry =
     (let (varName, desc) = entry;
          color = (case map_of VAR_COLORS varName of Some c \<Rightarrow> c | None \<Rightarrow> ''#f0a050'')
      in if length varName = 1
         then js_replace (var_span_pattern varName)
                (\<lambda>w caps. ''<span class=\"var\" data-var=\"'' @ varName @ ''\" data-desc=\"'' @ escapeHtml desc
                             @ ''\" style=\"--var-color: '' @ color @ ''\">''
                             @ group caps 0 @ group caps 1 @ group caps 2 @ ''</span>'') html
         else html)"

definition annotateVarsInMath :: "(string \<times> string) list \<Rightarrow> string \<Rightarrow> string" where
  "annotateVarsInMath descs html = foldl annotate_step html descs"

text \<open>\<^verbatim>\<open>s.split(sep)\<close> for a separator that is not empty.\<close>

fun pieces :: "seg list \<Rightarrow> string list" where
  "pieces [] = [[]]"
| "pieces (Lit c # ss) = (case pieces ss of p # ps \<Rightarrow> (c # p) # ps | [] \<Rightarrow> [[c]])"
| "pieces (Hit w caps # ss) = [] # pieces ss"

definition js_split :: "string \<Rightarrow> string \<Rightarrow> string list" where
  "js_split sep s = pieces (js_scan (lit_pattern sep) None s)"

text \<open>\<^verbatim>\<open>/\\begin\{(equation|align|gather|multline)\*?\}([\s\S]*?)\\end\{\1\*?\}/g\<close>\<close>

definition mathEnvPattern :: matcher where
  "mathEnvPattern p s =
     do { r0 \<leftarrow> lit (bs # ''begin{'') s;
          (env, r1) \<leftarrow> alt_lit [''equation'', ''align'', ''gather'', ''multline''] r0;
          r2 \<leftarrow> lit ''}'' (opt_chr (CHR ''*'') r1);
          (content, r) \<leftarrow> lazy_any (end_env env) r2;
          Some ([env, content], r) }"

text \<open>\<^verbatim>\<open>/\$\$([\s\S]*?)\$\$/g\<close>\<close>

definition displayPattern :: matcher where
  "displayPattern p s =
     do { r0 \<leftarrow> lit ''$$'' s;
          (content, r) \<leftarrow> lazy_any (lit ''$$'') r0;
          Some ([content], r) }"

text \<open>
  \<^verbatim>\<open>/(?<!\$)\$(?!\$)((?:[^$\\\n]|\\.)+?)\$/g\<close> of the first copy. A dollar sign cannot start
  a piece of the content and a backslash only starts a pair, so the content has one reading:
  it ends at the first dollar sign that is not the second half of a pair, and a line break
  before that, or a backslash in front of a line break, makes the match fail. The flag says
  whether a piece has been read.
\<close>

fun inline_body :: "bool \<Rightarrow> string \<Rightarrow> (string \<times> string) option" where
  "inline_body seen [] = None"
| "inline_body seen [c] =
     (if c = CHR ''$'' \<and> seen then Some ([], []) else None)"
| "inline_body seen (c # d # r) =
     (if c = CHR ''$'' then (if seen then Some ([], d # r) else None)
      else if c = CHR 0x0A then None
      else if c = bs then
        (if d = CHR 0x0A \<or> d = CHR 0x0D then None
         else (case inline_body True r of None \<Rightarrow> None | Some (b, rest) \<Rightarrow> Some (c # d # b, rest)))
      else (case inline_body True (d # r) of None \<Rightarrow> None | Some (b, rest) \<Rightarrow> Some (c # b, rest)))"

definition inlinePattern :: matcher where
  "inlinePattern p s =
     (if p = Some (CHR ''$'') then None
      else case s of
        c # d # r \<Rightarrow>
          if c = CHR ''$'' \<and> d \<noteq> CHR ''$''
          then (case inline_body False (d # r) of
                  None \<Rightarrow> None
                | Some (content, rest) \<Rightarrow> Some ([content], rest))
          else None
      | _ \<Rightarrow> None)"

text \<open>\<^verbatim>\<open>renderAllMath(text, varDescriptions)\<close> of the first copy.\<close>

definition display_div :: "typesetter \<Rightarrow> render_state \<Rightarrow> (string \<times> string) list \<Rightarrow> string \<Rightarrow> string" where
  "display_div katex st descs line =
     ''<div class=\"math-display\">'' @ annotateVarsInMath descs (renderMath_a katex st line True Map.empty)
       @ ''</div>''"

definition env_cb :: "typesetter \<Rightarrow> render_state \<Rightarrow> (string \<times> string) list \<Rightarrow> string \<Rightarrow> string list \<Rightarrow> string" where
  "env_cb katex st descs w caps =
     (let env = group caps 0;
          content = group caps 1;
          lines = (if env = ''align''
                   then filter (\<lambda>l. l \<noteq> [])
                          (map (\<lambda>l. trim (replace_chr (CHR ''&'') '' '' l)) (js_split [bs, bs] content))
                   else [trim content])
      in [nl] @ js_join [nl] (map (display_div katex st descs) lines) @ [nl])"

definition display_cb :: "typesetter \<Rightarrow> render_state \<Rightarrow> (string \<times> string) list \<Rightarrow> string \<Rightarrow> string list \<Rightarrow> string" where
  "display_cb katex st descs w caps = [nl] @ display_div katex st descs (trim (group caps 0)) @ [nl]"

definition inline_cb :: "typesetter \<Rightarrow> render_state \<Rightarrow> (string \<times> string) list \<Rightarrow> string \<Rightarrow> string list \<Rightarrow> string" where
  "inline_cb katex st descs w caps =
     ''<span class=\"math-inline\">''
       @ annotateVarsInMath descs (renderMath_a katex st (trim (group caps 0)) False Map.empty)
       @ ''</span>''"

definition renderAllMath_a :: "typesetter \<Rightarrow> render_state \<Rightarrow> (string \<times> string) list \<Rightarrow> string \<Rightarrow> string" where
  "renderAllMath_a katex st descs text =
     js_replace inlinePattern (inline_cb katex st descs)
       (js_replace displayPattern (display_cb katex st descs)
         (js_replace mathEnvPattern (env_cb katex st descs) text))"

text \<open>
  A typesetter reduced to its use of the macro table: an input that is the name of a macro
  is rendered as the definition of the macro, any other input as itself. And the macro
  table of a document that defines \<^verbatim>\<open>\R\<close> as \<^verbatim>\<open>\mathbf{R}\<close>.
\<close>

definition macro_lookup_typesetter :: typesetter where
  "macro_lookup_typesetter clean displayMode macros =
     Inr (case macros clean of Some body \<Rightarrow> body | None \<Rightarrow> clean)"

definition macros_bold_R :: macro_table where
  "macros_bold_R = map_of [(bs # ''R'', bs # ''mathbf{R}'')]"
section \<open>Lemmas\<close>

subsection \<open>Literals and scans without a match\<close>

lemma lit_Some_contains: "lit pat s \<noteq> None \<Longrightarrow> contains pat s"
  by (cases s; cases pat) auto

lemma contains_tl: "contains pat cs \<Longrightarrow> contains pat (c # cs)"
  by simp

lemma contains_drop: "contains pat (drop k s) \<Longrightarrow> contains pat s"
proof (induction s arbitrary: k)
  case Nil
  then show ?case by simp
next
  case (Cons c cs)
  show ?case
  proof (cases k)
    case 0
    with Cons.prems show ?thesis by simp
  next
    case (Suc j)
    with Cons.prems have "contains pat (drop j cs)" by simp
    then have "contains pat cs" by (rule Cons.IH)
    then show ?thesis by (rule contains_tl)
  qed
qed

lemma hits_at_Lit: "hits_at i (map Lit s) = []"
  by (induction s arbitrary: i) auto

lemma js_scan_no_match:
  "(\<And>p k. m p (drop k s) = None) \<Longrightarrow> js_scan m p s = map Lit s"
proof (induction s arbitrary: p)
  case Nil
  show ?case by simp
next
  case (Cons c cs)
  have h0: "m p (c # cs) = None" using Cons.prems [of p 0] by simp
  have "\<And>q k. m q (drop k cs) = None" using Cons.prems [of _ "Suc _"] by simp
  then have "js_scan m (Some c) cs = map Lit cs" by (rule Cons.IH)
  with h0 show ?case by simp
qed

subsection \<open>The sectioning pattern\<close>

lemma sectionPattern_needs_command:
  "\<not> contains (bs # ''section'') s \<Longrightarrow> sectionPattern p (drop k s) = None"
proof -
  assume h: "\<not> contains (bs # ''section'') s"
  have "lit (bs # ''section'') (drop k s) = None"
  proof (rule ccontr)
    assume "lit (bs # ''section'') (drop k s) \<noteq> None"
    then have "contains (bs # ''section'') (drop k s)" by (rule lit_Some_contains)
    then have "contains (bs # ''section'') s" by (rule contains_drop)
    with h show False by simp
  qed
  then show ?thesis by (simp add: sectionPattern_def)
qed


subsection \<open>Scans of a text with a single command\<close>


lemma lit_append: "lit (a @ b) (a @ s) = lit b s"
  by (induction a) auto

lemma lit_needs_bs: "\<forall>r. t \<noteq> bs # r \<Longrightarrow> lit (bs # x) t = None"
  by (cases t) auto

lemma no_bs_drop: "bs \<notin> set s \<Longrightarrow> \<forall>r. drop k s \<noteq> bs # r"
proof
  fix r
  assume h: "bs \<notin> set s"
  show "drop k s \<noteq> bs # r"
  proof
    assume "drop k s = bs # r"
    then have "bs \<in> set (drop k s)" by simp
    then have "bs \<in> set s" by (rule in_set_dropD)
    with h show False by simp
  qed
qed

lemma seg_out_Lit: "concat (map (seg_out f) (map Lit s)) = s"
  by (induction s) auto

lemma seg_out_Lit_comp: "concat (map (seg_out f \<circ> Lit) s) = s"
  by (induction s) auto

lemma js_replace_no_bs:
  assumes nomatch: "\<And>p t. \<forall>r. t \<noteq> bs # r \<Longrightarrow> m p t = None"
    and "bs \<notin> set s"
  shows "js_replace m f s = s"
proof -
  have "\<And>p k. m p (drop k s) = None"
    using assms by (simp add: no_bs_drop)
  then have "js_scan m None s = map Lit s" by (rule js_scan_no_match)
  then show ?thesis by (simp add: js_replace_def seg_out_Lit seg_out_Lit_comp)
qed





subsection \<open>The reference patterns\<close>






subsection \<open>The label table\<close>

lemma set_numbered_lookup:
  "set_numbered ty ks n L k =
     (if k \<in> set ks then Some \<lparr>lab_type = ty, lab_number = Num (n + Suc (last_pos k ks))\<rparr> else L k)"
  by (induction ks arbitrary: n L) auto

lemma set_standalone_lookup:
  "set_standalone ks L k =
     (if L k \<noteq> None then L k
      else if k \<in> set ks then Some \<lparr>lab_type = TyUnknown, lab_number = Question\<rparr> else None)"
  by (induction ks arbitrary: L) auto

lemmas pattern_defs = eqKeys_def figKeys_def tabKeys_def secKeys_def allKeys_def keys_of_def
  js_exec_all_def eqPattern_def figPattern_def tabPattern_def env_label_pattern_def secPattern_def
  standalonePattern_def label_then_end_def label_cmd_def end_env_def plus_until_def star_until_def
  group_def


subsection \<open>Figure replacement\<close>








subsection \<open>Figures without resolvable images\<close>







subsection \<open>Matches and the text around them\<close>




subsection \<open>The bracket pattern and the badge callback\<close>












subsection \<open>Replacement templates and macro passes\<close>

lemma expand_template_plain:
  "CHR ''$'' \<notin> set t \<Longrightarrow> expand_template t matched bef aft = t"
  by (induction t matched bef aft rule: expand_template.induct) auto

lemma template_out_plain:
  "CHR ''$'' \<notin> set t \<Longrightarrow> template_out t bef segs = concat (map (seg_out (\<lambda>w caps. t)) segs)"
proof (induction segs arbitrary: bef)
  case Nil
  show ?case by simp
next
  case (Cons s ss)
  then show ?case by (cases s) (simp_all add: expand_template_plain)
qed

lemma zero_arg_step_plain:
  "m_args d = 0 \<Longrightarrow> CHR ''$'' \<notin> set (m_replacement d) \<Longrightarrow>
     zero_arg_step tex d = js_replace (zero_arg_pattern (m_name d)) (\<lambda>w caps. m_replacement d) tex"
  by (simp add: zero_arg_step_def js_replace_template_def js_replace_def template_out_plain)


lemmas macro_eval_defs = applyMacros_def zero_arg_step_def one_arg_step_def js_replace_template_def
  zero_arg_pattern_def is_alpha_def

subsection \<open>Inline math\<close>

lemma inline_body_hit:
  assumes "CHR ''$'' \<notin> set c" "bs \<notin> set c" "CHR 0x0A \<notin> set c"
  shows "c \<noteq> [] \<or> seen \<Longrightarrow> inline_body seen (c @ CHR ''$'' # rest) = Some (c, rest)"
  using assms
proof (induction c arbitrary: seen)
  case Nil
  then show ?case by (cases rest) simp_all
next
  case (Cons x xs)
  obtain d r where dr: "xs @ CHR ''$'' # rest = d # r" by (cases xs) auto
  have "inline_body True (xs @ CHR ''$'' # rest) = Some (xs, rest)"
    using Cons by simp
  then have "inline_body True (d # r) = Some (xs, rest)" by (simp add: dr)
  moreover have "x \<noteq> CHR ''$''" "x \<noteq> bs" "x \<noteq> CHR 0x0A" using Cons.prems by auto
  ultimately have "inline_body seen (x # d # r) = Some (x # xs, rest)" by simp
  then show ?case by (simp add: dr)
qed

lemma no_double_dollar:
  "CHR ''$'' \<notin> set c \<Longrightarrow> \<not> contains ''$$'' (c @ ''$'')"
  by (induction c) auto

lemma displayPattern_none:
  assumes "\<not> contains ''$$'' s"
  shows "displayPattern p (drop k s) = None"
proof -
  have "lit ''$$'' (drop k s) = None"
  proof (rule ccontr)
    assume "lit ''$$'' (drop k s) \<noteq> None"
    then have "contains ''$$'' (drop k s)" by (rule lit_Some_contains)
    then have "contains ''$$'' s" by (rule contains_drop)
    with assms show False by simp
  qed
  then show ?thesis by (simp add: displayPattern_def)
qed

lemma mathEnvPattern_nomatch: "\<forall>r. t \<noteq> bs # r \<Longrightarrow> mathEnvPattern p t = None"
  by (simp add: mathEnvPattern_def lit_needs_bs)


section \<open>The claims\<close>

subsection \<open>C1\<close>

text \<open>
  C1: every element emitted for a math span should carry a \<^verbatim>\<open>data-raw\<close> attribute holding
  the escaped LaTeX source. The renderer emits the bare wrapper instead: for an inline span
  \<^verbatim>\<open>$c$\<close> (a content without dollar sign, backslash or line break) the output is
  \<^verbatim>\<open><span class="math-inline">\<close>, the annotated HTML of the typesetter and \<^verbatim>\<open></span>\<close>, for
  every typesetter; the opening tag has the class attribute only, and the source \<^verbatim>\<open>c\<close>
  reaches the output only through what the typesetter returns.
\<close>

theorem renderAllMath_inline_without_data_raw:
  assumes "c \<noteq> []" "CHR ''$'' \<notin> set c" "bs \<notin> set c" "CHR 0x0A \<notin> set c"
  shows "renderAllMath_a katex st descs (CHR ''$'' # c @ ''$'')
     = ''<span class=\"math-inline\">''
         @ annotateVarsInMath descs (renderMath_a katex st (trim c) False Map.empty) @ ''</span>''"
proof -
  let ?text = "CHR ''$'' # c @ ''$''"
  obtain x xs where c: "c = x # xs" using assms(1) by (cases c) auto
  have x: "x \<noteq> CHR ''$''" using assms(2) c by auto
  have nobs: "bs \<notin> set ?text" using assms(3) by simp
  have e: "js_replace mathEnvPattern (env_cb katex st descs) ?text = ?text"
    by (rule js_replace_no_bs [OF mathEnvPattern_nomatch nobs])
  have nodd: "\<not> contains ''$$'' ?text"
    using no_double_dollar [OF assms(2)] x c by simp
  have "js_scan displayPattern None ?text = map Lit ?text"
    by (rule js_scan_no_match) (rule displayPattern_none [OF nodd])
  then have d: "js_replace displayPattern (display_cb katex st descs) ?text = ?text"
    by (simp add: js_replace_def seg_out_Lit seg_out_Lit_comp del: js_scan.simps)
  have body: "inline_body False (c @ ''$'') = Some (c, [])"
    using inline_body_hit [OF assms(2-4), of False "[]"] assms(1) by simp
  have "inlinePattern None ?text = Some ([c], [])"
    using body x c by (simp add: inlinePattern_def)
  then have i: "js_scan inlinePattern None ?text = [Hit ?text [c]]"
    by simp
  show ?thesis
    unfolding renderAllMath_a_def e d
    by (simp add: js_replace_def i inline_cb_def group_def del: js_scan.simps)
qed


theorem renderAllMath_inline_without_data_raw_witness:
  "renderAllMath_a macro_lookup_typesetter initial_state [] ''$x$''
     = ''<span class=\"math-inline\">x</span>''"
proof -
  have h: "''x'' \<noteq> []" "CHR ''$'' \<notin> set ''x''" "bs \<notin> set ''x''" "CHR 0x0A \<notin> set ''x''"
    by simp_all
  have t: "trim ''x'' = ''x''" by (simp add: trim_def is_space_def)
  have c: "clean_a ''x'' = ''x''"
    by (simp add: clean_a_def replace_const_def js_replace_def trim_def is_space_def tagPattern_def
        cmd_arg0_pattern_def lit_pattern_def)
  have r: "renderMath_a macro_lookup_typesetter initial_state ''x'' False Map.empty = ''x''"
    by (simp add: renderMath_a_def c macro_lookup_typesetter_def initial_state_def defaultMacros_def
        map_add_def)
  show ?thesis
    using renderAllMath_inline_without_data_raw [OF h, of macro_lookup_typesetter initial_state "[]"]
    by (simp add: t r annotateVarsInMath_def)
qed

subsection \<open>C2\<close>

text \<open>
  C2 (as stated: a body with no sectioning command still yields exactly one implicit section).
  The segmenter builds one section per match of the sectioning pattern and has no other
  source of sections, so a body without any match yields the empty list.
  Counterexample: the body \<^verbatim>\<open>Hello world\<close> yields no section at all.
\<close>

theorem extractSections_implicit_section_counterexample:
  "extractSections ''Hello world'' = []"
  by (simp add: extractSections_def sectionStarts_def js_exec_all_def sectionPattern_def)

text \<open>
  C2 (amended): the structural segmenter returns one section for each match of the
  sectioning pattern and nothing else; for every document body in which the command name
  \<^verbatim>\<open>\section\<close> does not occur it returns the empty section list.
\<close>

theorem extractSections_no_command_empty:
  assumes "\<not> contains (bs # ''section'') body"
  shows "extractSections body = []
    \<and> length (extractSections text) = length (js_exec_all sectionPattern text)"
proof
  have "js_scan sectionPattern None body = map Lit body"
    by (rule js_scan_no_match) (rule sectionPattern_needs_command [OF assms])
  then have "sectionStarts body = []"
    by (simp add: sectionStarts_def js_exec_all_def hits_at_Lit)
  then show "extractSections body = []" by (simp add: extractSections_def)
  show "length (extractSections text) = length (js_exec_all sectionPattern text)"
    by (simp add: extractSections_def sectionStarts_def Let_def)
qed

theorem extractSections_no_command_empty_witness:
  "\<not> contains (bs # ''section'') ''Hello world'' \<and> extractSections ''Hello world'' = []
   \<and> length (extractSections (bs # ''section{A} x'')) = length (js_exec_all sectionPattern (bs # ''section{A} x''))"
proof -
  have h: "\<not> contains (bs # ''section'') ''Hello world''" by simp
  show ?thesis
    using h extractSections_no_command_empty [OF h, of "bs # ''section{A} x''"] by simp
qed

subsection \<open>C3\<close>

text \<open>
  C3 (as stated: every key gets its entry exactly once, on first sighting, and the entry is
  never overwritten within the run). Counterexample: in the document
  \<^const>\<open>doc_eq_fig_eq\<close> the equation pattern runs from the first \<^verbatim>\<open>\begin{equation}\<close> over
  the figure's label to the last \<^verbatim>\<open>\end{equation}\<close>, so the equation loop enters the key
  \<^verbatim>\<open>f\<close> as equation 1; the figure loop then overwrites that entry with figure 1.
\<close>

theorem collectLabels_entry_overwritten_counterexample:
  "set_numbered TyEquation (eqKeys doc_eq_fig_eq) 0 Map.empty ''f''
      = Some \<lparr>lab_type = TyEquation, lab_number = Num 1\<rparr>
   \<and> collectLabels doc_eq_fig_eq ''f'' = Some \<lparr>lab_type = TyFigure, lab_number = Num 1\<rparr>"
proof -
  have e: "eqKeys doc_eq_fig_eq = [''f'']"
    by (simp add: doc_eq_fig_eq_def pattern_defs)
  have f: "figKeys doc_eq_fig_eq = [''f'']"
    by (simp add: doc_eq_fig_eq_def pattern_defs)
  have t: "tabKeys doc_eq_fig_eq = []"
    by (simp add: doc_eq_fig_eq_def pattern_defs)
  have s: "secKeys doc_eq_fig_eq = []"
    by (simp add: doc_eq_fig_eq_def pattern_defs)
  have a: "allKeys doc_eq_fig_eq = [''f'']"
    by (simp add: doc_eq_fig_eq_def pattern_defs)
  show ?thesis by (simp add: collectLabels_def e f t s a)
qed

text \<open>
  C3 (amended): label collection is a function of the document alone, made of five successive
  left-to-right scans (equations, figures, tables, sections, then every \<^verbatim>\<open>\label\<close>). In a
  typed scan the n-th match sets its key to that kind with ordinal n and overwrites an earlier
  entry of the key; the last scan only adds keys that have no entry yet. So the entry of a
  key is decided by the last typed scan that matches it (section, else table, else figure,
  else equation) and carries the ordinal of the key's last match in that scan; a key no
  typed scan matches is recorded as unknown with \<^verbatim>\<open>?\<close>; and the same document always gives
  the same table.
\<close>

theorem collectLabels_table:
  "collectLabels text k =
     (if k \<in> set (secKeys text)
        then Some \<lparr>lab_type = TySection, lab_number = Num (Suc (last_pos k (secKeys text)))\<rparr>
      else if k \<in> set (tabKeys text)
        then Some \<lparr>lab_type = TyTable, lab_number = Num (Suc (last_pos k (tabKeys text)))\<rparr>
      else if k \<in> set (figKeys text)
        then Some \<lparr>lab_type = TyFigure, lab_number = Num (Suc (last_pos k (figKeys text)))\<rparr>
      else if k \<in> set (eqKeys text)
        then Some \<lparr>lab_type = TyEquation, lab_number = Num (Suc (last_pos k (eqKeys text)))\<rparr>
      else if k \<in> set (allKeys text)
        then Some \<lparr>lab_type = TyUnknown, lab_number = Question\<rparr>
      else None)"
  by (simp add: collectLabels_def Let_def set_numbered_lookup set_standalone_lookup)

subsection \<open>C4\<close>




subsection \<open>C5\<close>





subsection \<open>C6\<close>



subsection \<open>C7\<close>




subsection \<open>C8\<close>

text \<open>
  C8: a macro without argument is expanded where its name is not followed by a letter, and
  each such occurrence should become the body. The body is handed to \<^verbatim>\<open>replace\<close> as a
  replacement template, so a body with dollar patterns is not inserted as it is: for
  \<^verbatim>\<open>\newcommand{\x}{$$a$$}\<close> the text \<^verbatim>\<open>\x\<close> becomes \<^verbatim>\<open>$a$\<close>, not \<^verbatim>\<open>$$a$$\<close>. (For a body
  without dollar sign the template is the body, see \<open>zero_arg_step_plain\<close>.)
\<close>

theorem applyMacros_dollar_body:
  "applyMacros [bs, CHR ''x''] macros_display = ''$a$''"
  by (simp add: macros_display_def macro_eval_defs)

subsection \<open>C9\<close>

text \<open>
  C9 (as stated: rendering a span of one document gives the same HTML whether or not the
  setter has meanwhile been called with the macros of another document). Counterexample:
  document A sets an empty table and renders \<^verbatim>\<open>\R\<close> with the default definition
  \<^verbatim>\<open>\mathbb{R}\<close>; after the setter has been called with the table of a document that
  defines \<^verbatim>\<open>\R\<close> as \<^verbatim>\<open>\mathbf{R}\<close>, the same span renders with that definition.
\<close>

theorem renderMath_shared_macros_counterexample:
  "renderMath_b macro_lookup_typesetter (setCustomMacros (Some Map.empty) initial_state)
       [bs, CHR ''R''] False = bs # ''mathbb{R}''
   \<and> renderMath_b macro_lookup_typesetter
       (setCustomMacros (Some macros_bold_R) (setCustomMacros (Some Map.empty) initial_state))
       [bs, CHR ''R''] False = bs # ''mathbf{R}''"
proof -
  have c: "clean_b [bs, CHR ''R''] = [bs, CHR ''R'']"
    by (simp add: clean_b_def replace_const_def js_replace_def trim_def is_space_def tagPattern_def
        cmd_arg0_pattern_def lit_pattern_def)
  show ?thesis
    by (simp add: renderMath_b_def c macro_lookup_typesetter_def setCustomMacros_def initial_state_def
        defaultMacros_def macros_bold_R_def map_add_def)
qed

text \<open>
  C9 (amended): the custom macros live in one module-level table that stays as it is until
  the setter is called again, so it is shared by the documents converted in one process.
  Rendering depends on the state only through the table set last: after a run has called
  the setter with its own macros, as the pipeline does before it renders the sections, its
  rendering is the same whatever tables were set before.
\<close>

theorem renderMath_depends_on_last_table_only:
  "renderMath_b katex (setCustomMacros macros st) latex displayMode
     = renderMath_b katex (setCustomMacros macros st') latex displayMode
   \<and> renderMath_a katex (setCustomMacros macros st) latex displayMode extraMacros
     = renderMath_a katex (setCustomMacros macros st') latex displayMode extraMacros"
  by (simp add: renderMath_b_def renderMath_a_def setCustomMacros_def)

subsection \<open>C10\<close>



end
